theory Spec2Isabelle
  imports Main "HOL-Library.Sublist" "HOL-Library.Word"
begin

section \<open>Python values\<close>

text \<open>
  A Python \<open>str\<close> is a sequence of Unicode code points; the prompt of \<open>main.py\<close> holds
  Japanese text, so a character is its code point. \<open>str_lit\<close> writes the ASCII part of a
  literal. The uploaded file's content is a byte string.
\<close>

type_synonym pystr = "nat list"

type_synonym bytes = "8 word list"

definition str_lit :: "string \<Rightarrow> pystr" where
  "str_lit s = map of_char s"

text \<open>
  \<open>str.strip()\<close> with no argument removes the leading and trailing characters that
  \<open>str.isspace\<close> accepts: the ASCII whitespace 0x09-0x0D, 0x1C-0x20 and the Unicode
  whitespace U+0085, U+00A0, U+1680, U+2000-U+200A, U+2028, U+2029, U+202F, U+205F, U+3000.
\<close>

definition isspace :: "nat \<Rightarrow> bool" where
  "isspace c \<longleftrightarrow>
     (9 \<le> c \<and> c \<le> 13) \<or> (28 \<le> c \<and> c \<le> 32) \<or> c = 133 \<or> c = 160 \<or> c = 5760
     \<or> (8192 \<le> c \<and> c \<le> 8202) \<or> c = 8232 \<or> c = 8233 \<or> c = 8239 \<or> c = 8287 \<or> c = 12288"

definition strip :: "pystr \<Rightarrow> pystr" where
  "strip s = rev (dropWhile isspace (rev (dropWhile isspace s)))"

text \<open>
  \<open>s.replace(old, new)\<close>: one pass from the left; at each position where \<open>old\<close> starts,
  \<open>new\<close> is emitted and the scan resumes after the match, so matches never overlap and the
  text already emitted is not scanned again. With an empty \<open>old\<close> Python puts \<open>new\<close>
  before every character and at the end.
\<close>

function replace :: "'a list \<Rightarrow> 'a list \<Rightarrow> 'a list \<Rightarrow> 'a list" where
  "replace [] old new = (if old = [] then new else [])"
| "replace (c # cs) old new =
     (if old = [] then new @ c # replace cs old new
      else if prefix old (c # cs) then new @ replace (drop (length old) (c # cs)) old new
      else c # replace cs old new)"
  by pat_completeness auto
termination
  by (relation "measure (\<lambda>(s, old, new). length s)") auto

text \<open>Decimal digits of a status code, as the f-string \<open>f"{status_code}"\<close> prints it.\<close>

fun decimal :: "nat \<Rightarrow> pystr" where
  "decimal n = (if n < 10 then [48 + n] else decimal (n div 10) @ [48 + n mod 10])"

section \<open>Exceptions\<close>

text \<open>
  The exception classes the module raises or catches by name; every other subclass of
  \<open>Exception\<close> is \<open>OtherException\<close>. All four are subclasses of \<open>Exception\<close>
  (\<open>JSONDecodeError\<close> of \<open>ValueError\<close>), so \<open>except Exception\<close> catches each of them.
  The argument is the message; \<open>HTTPException\<close> carries \<open>status_code\<close> and \<open>detail\<close>.
\<close>

datatype exn =
    HTTPException nat pystr
  | JSONDecodeError pystr
  | ValueError pystr
  | OtherException pystr

text \<open>
  \<open>str(e)\<close>. For an \<open>HTTPException\<close> it is \<open>f"{self.status_code}: {self.detail}"\<close>;
  for the others it is the message.
\<close>

fun exn_str :: "exn \<Rightarrow> pystr" where
  "exn_str (HTTPException status detail) = decimal status @ str_lit '': '' @ detail"
| "exn_str (JSONDecodeError msg) = msg"
| "exn_str (ValueError msg) = msg"
| "exn_str (OtherException msg) = msg"

section \<open>Module initialisation\<close>

text \<open>
  The statements of the module run in order when it is imported. The process state holds
  what they have set up so far: the configured key and model, the application object and
  its routes. \<open>getenv\<close> is the environment after \<open>load_dotenv()\<close>; \<open>os.getenv\<close> gives
  \<open>None\<close> for a variable that is not set. \<open>not GEMINI_API_KEY\<close> holds for \<open>None\<close> and for
  the empty string.
\<close>

record process =
  api_key :: "pystr option"
  model_name :: "pystr option"
  app_created :: bool
  routes :: "(pystr \<times> pystr) list"

definition not_started :: process where
  "not_started = \<lparr>api_key = None, model_name = None, app_created = False, routes = []\<rparr>"

definition module_init :: "(pystr \<Rightarrow> pystr option) \<Rightarrow> exn option \<times> process" where
  "module_init getenv =
     (let GEMINI_API_KEY = getenv (str_lit ''GEMINI_API_KEY'') in
      if GEMINI_API_KEY = None \<or> GEMINI_API_KEY = Some [] then
        (Some (ValueError (str_lit ''GEMINI_API_KEY not found in .env file.'')), not_started)
      else
        (None,
         \<lparr>api_key = GEMINI_API_KEY,
          model_name = Some (str_lit ''gemini-2.5-flash''),
          app_created = True,
          routes = [(str_lit ''GET'', str_lit ''/''),
                    (str_lit ''POST'', str_lit ''/extract-data/'')]\<rparr>))"

section \<open>The prompt\<close>

definition PROMPT_line1 :: pystr where
  "PROMPT_line1 =
    str_lit ''You are a real estate data extraction expert. I will provide you with the text content of a Japanese real estate PDF document. Your task is to extract specific real estate information and format it as a single JSON object.''"

definition PROMPT_line2 :: pystr where
  "PROMPT_line2 = []"

definition PROMPT_line3 :: pystr where
  "PROMPT_line3 =
    str_lit ''The output JSON MUST have the following keys in English. The extracted values should also be translated into English. If a value is not present in the document or a direct translation is not possible (e.g., a specific address), use null.''"

definition PROMPT_line4 :: pystr where
  "PROMPT_line4 = []"

definition PROMPT_line5 :: pystr where
  "PROMPT_line5 = str_lit ''- **Property Type:** Look for '' @ [39, 25144, 24314, 12390, 39]
     @ str_lit '', '' @ [39, 12510, 12531, 12471, 12519, 12531, 39] @ str_lit '', ''
     @ [39, 22303, 22320, 39] @ str_lit '', '' @ [39] @ str_lit ''1''
     @ [26847, 12510, 12531, 12471, 12519, 12531, 39] @ str_lit '', ''
     @ [39, 12450, 12497, 12540, 12488, 39]
     @ str_lit ''. Translate the found value to English (e.g., ''
     @ [39, 25144, 24314, 12390, 39] @ str_lit '' -> '' @ [39] @ str_lit ''Detached House''
     @ [39] @ str_lit '').''"

definition PROMPT_line6 :: pystr where
  "PROMPT_line6 = str_lit ''- **Price:** Look for '' @ [39, 20385, 26684, 39] @ str_lit '', ''
     @ [39, 20516, 27573, 39] @ str_lit '', '' @ [39, 36009, 22770, 20385, 26684, 39]
     @ str_lit ''.''"

definition PROMPT_line7 :: pystr where
  "PROMPT_line7 = str_lit ''- **Address:** Look for '' @ [39, 25152, 22312, 39] @ str_lit '', ''
     @ [39, 25152, 22312, 22320, 39] @ str_lit '', '' @ [39, 20303, 25152, 39] @ str_lit ''.''"

definition PROMPT_line8 :: pystr where
  "PROMPT_line8 = str_lit ''- **Area:** Look for '' @ [39, 38754, 31309, 39] @ str_lit '', ''
     @ [39, 22303, 22320, 38754, 31309, 39] @ str_lit '', ''
     @ [39, 24310, 24202, 38754, 31309, 39] @ str_lit '', '' @ [39, 24310, 24202, 39]
     @ str_lit '', '' @ [39, 25975, 22320, 38754, 31309, 39] @ str_lit '', ''
     @ [39, 24314, 29289, 38754, 31309, 39] @ str_lit ''.''"

definition PROMPT_line9 :: pystr where
  "PROMPT_line9 = str_lit ''- **Ownership:** Look for '' @ [39, 25152, 26377, 27177, 39]
     @ str_lit '', '' @ [39, 20511, 22320, 27177, 39] @ str_lit '', ''
     @ [39, 25975, 22320, 27177, 39] @ str_lit ''. Translate to English (e.g., ''
     @ [39, 25152, 26377, 27177, 39] @ str_lit '' -> '' @ [39] @ str_lit ''Freehold'' @ [39]
     @ str_lit '').''"

definition PROMPT_line10 :: pystr where
  "PROMPT_line10 = str_lit ''- **Shared Ownership:** Look for '' @ [39, 25345, 12385, 20998, 39]
     @ str_lit '', '' @ [39, 20849, 26377, 25345, 20998, 39] @ str_lit ''.''"

definition PROMPT_line11 :: pystr where
  "PROMPT_line11 = str_lit ''- **Land Category:** Look for '' @ [39, 22320, 30446, 39]
     @ str_lit '', '' @ [39, 23429, 22320, 39] @ str_lit '', '' @ [39, 23665, 26519, 39]
     @ str_lit ''. Translate to English.''"

definition PROMPT_line12 :: pystr where
  "PROMPT_line12 = str_lit ''- **Road Info:** Look for '' @ [39, 36947, 36335, 39]
     @ str_lit '', '' @ [39, 24133, 21729, 39] @ str_lit '', '' @ [39, 38263, 12373, 39]
     @ str_lit '', '' @ [39, 25509, 36947, 39] @ str_lit ''.''"

definition PROMPT_line13 :: pystr where
  "PROMPT_line13 = str_lit ''- **Coverage & Floor-to-Area Ratio:** Look for ''
     @ [39, 24314, 12410, 12356, 29575, 39] @ str_lit '', '' @ [39, 23481, 31309, 29575, 39]
     @ str_lit ''.''"

definition PROMPT_line14 :: pystr where
  "PROMPT_line14 = str_lit ''- **Zoning:** Look for '' @ [39, 29992, 36884, 22320, 22495, 39]
     @ str_lit ''. Translate to English.''"

definition PROMPT_line15 :: pystr where
  "PROMPT_line15 = str_lit ''- **Utilities:** Look for '' @ [39, 27700, 36947, 39]
     @ str_lit '', '' @ [39, 19979, 27700, 39] @ str_lit '', '' @ [39, 12460, 12473, 39]
     @ str_lit '', '' @ [39, 37117, 24066, 12460, 12473, 39] @ str_lit '', ''
     @ [39, 38651, 27671, 39] @ str_lit ''. Translate to English.''"

definition PROMPT_line16 :: pystr where
  "PROMPT_line16 = str_lit ''- **Status:** Look for '' @ [39, 29694, 27841, 39] @ str_lit '', ''
     @ [39, 23621, 20303, 20013, 39] @ str_lit '', '' @ [39, 31354, 12365, 23478, 39]
     @ str_lit '', '' @ [39, 31354, 23460, 39] @ str_lit ''. Translate to English (e.g., ''
     @ [39, 23621, 20303, 20013, 39] @ str_lit '' -> '' @ [39] @ str_lit ''Occupied'' @ [39]
     @ str_lit '').''"

definition PROMPT_line17 :: pystr where
  "PROMPT_line17 = str_lit ''- **Transportation:** Look for '' @ [39, 39365, 39]
     @ str_lit '', '' @ [39, 24466, 27497, 39] @ str_lit '', '' @ [39, 20998, 39]
     @ str_lit '', '' @ [39, 27839, 32218, 39] @ str_lit '', '' @ [39, 20132, 36890, 39]
     @ str_lit ''.''"

definition PROMPT_line18 :: pystr where
  "PROMPT_line18 = str_lit ''- **Construction Date:** Look for ''
     @ [39, 31689, 24180, 26376, 39] @ str_lit '', '' @ [39, 24314, 31689, 24180, 26376, 39]
     @ str_lit '', '' @ [39, 22679, 25913, 31689, 39] @ str_lit ''.''"

definition PROMPT_line19 :: pystr where
  "PROMPT_line19 = str_lit ''- **Floor Plan & Structure:** Look for ''
     @ [39, 38291, 21462, 12426, 39] @ str_lit '', '' @ [39, 27083, 36896, 39] @ str_lit '', ''
     @ [39, 37444, 31563, 12467, 12531, 12463, 12522, 12540, 12488, 39] @ str_lit '', ''
     @ [39, 37444, 31563, 37444, 39592, 12467, 12531, 12463, 12522, 12540, 12488, 39]
     @ str_lit '', '' @ [39, 37444, 39592, 39] @ str_lit '', ''
     @ [39, 37325, 37327, 37444, 39592, 39] @ str_lit '', ''
     @ [39, 36605, 37327, 37444, 39592, 39] @ str_lit '', '' @ [39, 26408, 36896, 39]
     @ str_lit ''. Translate to English (e.g., '' @ [39, 26408, 36896, 39] @ str_lit '' -> ''
     @ [39] @ str_lit ''Wooden'' @ [39] @ str_lit '').''"

definition PROMPT_line20 :: pystr where
  "PROMPT_line20 = str_lit ''- **Parking:** Look for '' @ [39, 36554, 24235, 39]
     @ str_lit '', '' @ [39, 39376, 36554, 22580, 39] @ str_lit ''. Translate to English.''"

definition PROMPT_line21 :: pystr where
  "PROMPT_line21 = []"

definition PROMPT_line22 :: pystr where
  "PROMPT_line22 =
    str_lit ''The output MUST be a valid JSON object. Do not include any text before or after the JSON.''"

definition PROMPT :: pystr where
  "PROMPT = [10] @ concat (map (\<lambda>l. l @ [10])
    [PROMPT_line1, PROMPT_line2, PROMPT_line3, PROMPT_line4, PROMPT_line5, PROMPT_line6,
     PROMPT_line7, PROMPT_line8, PROMPT_line9, PROMPT_line10, PROMPT_line11, PROMPT_line12,
     PROMPT_line13, PROMPT_line14, PROMPT_line15, PROMPT_line16, PROMPT_line17,
     PROMPT_line18, PROMPT_line19, PROMPT_line20, PROMPT_line21, PROMPT_line22])"

text \<open>The text between the prompt and the document in the f-string of the handler.\<close>

definition separator :: pystr where
  "separator = [10, 10] @ str_lit ''Document Text:'' @ [10]"

definition full_prompt :: "pystr \<Rightarrow> pystr" where
  "full_prompt extracted_text = PROMPT @ separator @ extracted_text"

section \<open>External services\<close>

text \<open>
  The calls that leave the module: reading the upload, \<open>pypdf\<close>, the Gemini client,
  \<open>json.loads\<close> and the rendering of the response body. Each may raise. \<open>'f\<close> is the
  upload, \<open>'p\<close> a page, \<open>'r\<close> the model's response object and \<open>'j\<close> the value
  \<open>json.loads\<close> builds. \<open>page.extract_text()\<close> may give \<open>None\<close>. \<open>render\<close> is what the
  constructor of \<open>JSONResponse\<close> does with its content:
  \<open>json.dumps(content, ensure_ascii=False, allow_nan=False, ...).encode("utf-8")\<close>, which
  raises for a float that is infinite or not a number and for a string that UTF-8 cannot
  encode.
\<close>

record ('f, 'p, 'r, 'j) services =
  read :: "'f \<Rightarrow> exn + bytes"
  PdfReader :: "bytes \<Rightarrow> exn + 'p list"
  page_extract_text :: "'p \<Rightarrow> exn + pystr option"
  generate_content :: "pystr \<Rightarrow> exn + 'r"
  response_text :: "'r \<Rightarrow> exn + pystr"
  json_loads :: "pystr \<Rightarrow> exn + 'j"
  render :: "'j \<Rightarrow> exn + bytes"

section \<open>Text extraction\<close>

text \<open>\<open>x or ""\<close>: the empty string when \<open>x\<close> is \<open>None\<close> or empty.\<close>

definition or_empty :: "pystr option \<Rightarrow> pystr" where
  "or_empty x = (case x of None \<Rightarrow> [] | Some s \<Rightarrow> if s = [] then [] else s)"

text \<open>The loop \<open>for page in reader.pages: text += page.extract_text() or ""\<close>.\<close>

fun extract_pages :: "('p \<Rightarrow> exn + pystr option) \<Rightarrow> pystr \<Rightarrow> 'p list \<Rightarrow> exn + pystr" where
  "extract_pages ext text [] = Inr text"
| "extract_pages ext text (page # pages) =
     (case ext page of
        Inl e \<Rightarrow> Inl e
      | Inr t \<Rightarrow> extract_pages ext (text @ or_empty t) pages)"

definition extract_text_from_pdf :: "('f, 'p, 'r, 'j) services \<Rightarrow> bytes \<Rightarrow> exn + pystr" where
  "extract_text_from_pdf env file_stream =
     (case PdfReader env file_stream of
        Inl e \<Rightarrow> Inl e
      | Inr pages \<Rightarrow> extract_pages (page_extract_text env) [] pages)"

section \<open>The handler of POST /extract-data/\<close>

record 'j JSONResponse =
  content :: 'j
  status_code :: nat
  media_type :: pystr
  headers :: "(pystr \<times> pystr) list"
  body :: bytes

text \<open>The two fence markers; 96 is the backquote.\<close>

definition fence_json :: pystr where
  "fence_json = [96, 96, 96] @ str_lit ''json''"

definition fence :: pystr where
  "fence = [96, 96, 96]"

text \<open>The two \<open>replace\<close> calls of the handler, the marker with \<open>json\<close> first.\<close>

definition strip_fences :: "pystr \<Rightarrow> pystr" where
  "strip_fences s = replace (replace s fence_json []) fence []"

definition no_text_detail :: pystr where
  "no_text_detail = str_lit ''Could not extract text from the PDF file.''"

definition parse_failure_detail :: pystr where
  "parse_failure_detail =
     str_lit ''Failed to parse JSON from Gemini'' @ [39]
     @ str_lit ''s response. The AI might not have returned a valid JSON object.''"

text \<open>
  The inner \<open>try\<close>: \<open>response.text\<close>, the cleaning and \<open>json.loads\<close>;
  \<open>except json.JSONDecodeError\<close> turns that class alone into the \<open>HTTPException\<close>.
\<close>

fun on_decode_error :: "exn \<Rightarrow> exn" where
  "on_decode_error (JSONDecodeError msg) = HTTPException 500 parse_failure_detail"
| "on_decode_error e = e"

definition parse_response :: "('f, 'p, 'r, 'j) services \<Rightarrow> 'r \<Rightarrow> exn + 'j" where
  "parse_response env response =
     (case (case response_text env response of
              Inl e \<Rightarrow> Inl e
            | Inr text \<Rightarrow> json_loads env (strip_fences (strip text))) of
        Inl e \<Rightarrow> Inl (on_decode_error e)
      | Inr extracted_data \<Rightarrow> Inr extracted_data)"

text \<open>
  \<open>JSONResponse(content=extracted_data, media_type="application/json", headers={...})\<close>.
  The constructor renders the content into the body, so it raises what \<open>render\<close> raises;
  otherwise the response has the default status 200, the given media type and header, and
  the rendered body. The record keeps the content the body was rendered from.
\<close>

definition rendered_response :: "'j \<Rightarrow> bytes \<Rightarrow> 'j JSONResponse" where
  "rendered_response extracted_data rendered =
     \<lparr>content = extracted_data,
      status_code = 200,
      media_type = str_lit ''application/json'',
      headers = [(str_lit ''Content-Disposition'',
                  str_lit ''attachment; filename=extracted_data.json'')],
      body = rendered\<rparr>"

definition download_response :: "('f, 'p, 'r, 'j) services \<Rightarrow> 'j \<Rightarrow> exn + 'j JSONResponse" where
  "download_response env extracted_data =
     (case render env extracted_data of
        Inl e \<Rightarrow> Inl e
      | Inr rendered \<Rightarrow> Inr (rendered_response extracted_data rendered))"

text \<open>
  The body of the outer \<open>try\<close>. The second component is the list of payloads handed to
  \<open>model.generate_content\<close>, in order: the outbound requests of this invocation.
\<close>

definition try_body ::
  "('f, 'p, 'r, 'j) services \<Rightarrow> 'f \<Rightarrow> (exn + 'j JSONResponse) \<times> pystr list" where
  "try_body env pdf_file =
     (case read env pdf_file of
        Inl e \<Rightarrow> (Inl e, [])
      | Inr file_content \<Rightarrow>
          (case extract_text_from_pdf env file_content of
             Inl e \<Rightarrow> (Inl e, [])
           | Inr extracted_text \<Rightarrow>
               if extracted_text = [] then (Inl (HTTPException 400 no_text_detail), [])
               else
                 (case generate_content env (full_prompt extracted_text) of
                    Inl e \<Rightarrow> (Inl e, [full_prompt extracted_text])
                  | Inr response \<Rightarrow>
                      (case parse_response env response of
                         Inl e \<Rightarrow> (Inl e, [full_prompt extracted_text])
                       | Inr extracted_data \<Rightarrow>
                           (case download_response env extracted_data of
                              Inl e \<Rightarrow> (Inl e, [full_prompt extracted_text])
                            | Inr response \<Rightarrow>
                                (Inr response, [full_prompt extracted_text]))))))"

text \<open>
  \<open>except Exception as e: raise HTTPException(status_code=500, detail=str(e))\<close> around the
  whole body: it catches every exception of the body, the two \<open>HTTPException\<close>s the body
  raises itself and a failure to build the response included.
\<close>

definition extract_data_from_pdf ::
  "('f, 'p, 'r, 'j) services \<Rightarrow> 'f \<Rightarrow> (exn + 'j JSONResponse) \<times> pystr list" where
  "extract_data_from_pdf env pdf_file =
     (case try_body env pdf_file of
        (Inl e, requests) \<Rightarrow> (Inl (HTTPException 500 (exn_str e)), requests)
      | (Inr response, requests) \<Rightarrow> (Inr response, requests))"

section \<open>A scripted environment\<close>

text \<open>
  Concrete services for running the handler on examples. The upload is its own content, a
  page is what \<open>extract_text\<close> gives for it, the model's response is its text or the
  exception the call raises. \<open>PdfReader\<close> refuses an empty stream, as \<open>pypdf\<close> does.
  \<open>json.loads\<close> is given by a table from documents to the values they denote; a text
  outside the table is rejected with the decoder's error. Rendering is given by a table
  from values to what \<open>json.dumps(...).encode("utf-8")\<close> gives for them: the bytes, or
  the exception it raises.
\<close>

datatype json = JNull | JString pystr | JObject "(pystr \<times> json) list"

definition table_loads :: "(pystr \<times> json) list \<Rightarrow> pystr \<Rightarrow> exn + json" where
  "table_loads table s =
     (case map_of table s of
        Some v \<Rightarrow> Inr v
      | None \<Rightarrow> Inl (JSONDecodeError (str_lit ''Expecting value: line 1 column 1 (char 0)'')))"

definition table_render :: "(json \<times> (exn + bytes)) list \<Rightarrow> json \<Rightarrow> exn + bytes" where
  "table_render table v =
     (case map_of table v of
        Some result \<Rightarrow> result
      | None \<Rightarrow> Inl (OtherException (str_lit ''no rendering is scripted for this value'')))"

text \<open>An upload that starts like a PDF, and a page with the text \<open>Price: 3000\<close>.\<close>

definition sample_pdf :: bytes where
  "sample_pdf = [0x25, 0x50, 0x44, 0x46]"

definition sample_text :: pystr where
  "sample_text = str_lit ''Price: 3000''"

text \<open>The document \<open>{"Address": null}\<close>, bare and inside a fenced block.\<close>

definition address_doc :: pystr where
  "address_doc = [123, 34] @ str_lit ''Address'' @ [34] @ str_lit '': null}''"

definition address_value :: json where
  "address_value = JObject [(str_lit ''Address'', JNull)]"

definition fenced_reply :: pystr where
  "fenced_reply = fence_json @ [10] @ address_doc @ [10] @ fence"

text \<open>
  The document \<open>{"Note": "```"}\<close>, whose field value is three backquotes, and the
  document \<open>{"Note": ""}\<close>.
\<close>

definition note_doc :: pystr where
  "note_doc = [123, 34] @ str_lit ''Note'' @ [34] @ str_lit '': '' @ [34] @ fence @ [34, 125]"

definition note_value :: json where
  "note_value = JObject [(str_lit ''Note'', JString fence)]"

definition emptied_note_doc :: pystr where
  "emptied_note_doc = [123, 34] @ str_lit ''Note'' @ [34] @ str_lit '': '' @ [34, 34, 125]"

definition emptied_note_value :: json where
  "emptied_note_value = JObject [(str_lit ''Note'', JString [])]"

text \<open>
  A document whose \<open>Address\<close> field is a JSON string holding one escape, the backslash
  (92) followed by \<open>ud800\<close>: six ASCII characters of the document. The value is the string
  whose one character is the code point D800, a surrogate without its pair. \<open>json.loads\<close>
  accepts the document; UTF-8 has no encoding for the value.
\<close>

definition surrogate_doc :: pystr where
  "surrogate_doc =
     [123, 34] @ str_lit ''Address'' @ [34] @ str_lit '': '' @ [34, 92] @ str_lit ''ud800''
     @ [34, 125]"

definition surrogate_value :: json where
  "surrogate_value = JObject [(str_lit ''Address'', JString [0xD800])]"

definition json_table :: "(pystr \<times> json) list" where
  "json_table =
     [([10] @ address_doc @ [10], address_value),
      (address_doc, address_value),
      (note_doc, note_value),
      (emptied_note_doc, emptied_note_value),
      (surrogate_doc, surrogate_value)]"

text \<open>
  The bodies \<open>{"Address":null}\<close>, \<open>{"Note":"```"}\<close> and \<open>{"Note":""}\<close>, and the
  message of the \<open>UnicodeEncodeError\<close> for the surrogate, which stands at index 12 of
  the dumped text.
\<close>

definition address_body :: bytes where
  "address_body = [123, 34, 65, 100, 100, 114, 101, 115, 115, 34, 58, 110, 117, 108, 108, 125]"

definition note_body :: bytes where
  "note_body = [123, 34, 78, 111, 116, 101, 34, 58, 34, 96, 96, 96, 34, 125]"

definition emptied_note_body :: bytes where
  "emptied_note_body = [123, 34, 78, 111, 116, 101, 34, 58, 34, 34, 125]"

definition surrogate_error :: pystr where
  "surrogate_error =
     [39] @ str_lit ''utf-8'' @ [39] @ str_lit '' codec can'' @ [39]
     @ str_lit ''t encode character '' @ [39, 92] @ str_lit ''ud800'' @ [39]
     @ str_lit '' in position 12: surrogates not allowed''"

definition render_table :: "(json \<times> (exn + bytes)) list" where
  "render_table =
     [(address_value, Inr address_body),
      (note_value, Inr note_body),
      (emptied_note_value, Inr emptied_note_body),
      (surrogate_value, Inl (OtherException surrogate_error))]"

definition scripted_services ::
  "pystr option list \<Rightarrow> exn + pystr \<Rightarrow> (pystr \<times> json) list \<Rightarrow>
   (bytes, pystr option, pystr, json) services" where
  "scripted_services pages reply table =
     \<lparr>read = Inr,
      PdfReader = (\<lambda>stream.
        if stream = [] then Inl (OtherException (str_lit ''Cannot read an empty file''))
        else Inr pages),
      page_extract_text = Inr,
      generate_content = (\<lambda>payload. reply),
      response_text = Inr,
      json_loads = table_loads table,
      render = table_render render_table\<rparr>"


section \<open>Properties of \<open>replace\<close> and of fence stripping\<close>

declare decimal.simps [simp del]

lemma replace_no_match:
  "old \<noteq> [] \<Longrightarrow> \<not> sublist old s \<Longrightarrow> replace s old new = s"
proof (induction s)
  case Nil
  then show ?case by simp
next
  case (Cons c cs)
  from Cons.prems have np: "\<not> prefix old (c # cs)" and ns: "\<not> sublist old cs"
    by (auto simp: sublist_Cons_right)
  with Cons show ?case by simp
qed

lemma replace3_match: "replace (b # b # b # t) [b, b, b] [] = replace t [b, b, b] []"
  by simp

lemma replace3_skip:
  "\<not> (\<exists>t. c # cs = b # b # b # t) \<Longrightarrow>
   replace (c # cs) [b, b, b] [] = c # replace cs [b, b, b] []"
  by (auto simp: prefix_def)

text \<open>What is left after removing a three-character marker starts with it only if the input did.\<close>

lemma replace3_head:
  assumes "replace s [b, b, b] [] = b # rest"
  shows "\<exists>cs. s = b # cs"
proof (cases s)
  case Nil
  with assms show ?thesis by simp
next
  case (Cons c cs)
  show ?thesis
  proof (cases "\<exists>t. c # cs = b # b # b # t")
    case True
    with Cons show ?thesis by auto
  next
    case False
    from replace3_skip [OF False] assms Cons have "c = b" by simp
    with Cons show ?thesis by simp
  qed
qed

lemma replace3_head2:
  assumes "replace s [b, b, b] [] = b # b # rest"
  shows "\<exists>cs. s = b # b # cs"
proof (cases s)
  case Nil
  with assms show ?thesis by simp
next
  case (Cons c cs)
  show ?thesis
  proof (cases "\<exists>t. c # cs = b # b # b # t")
    case True
    with Cons show ?thesis by auto
  next
    case False
    from replace3_skip [OF False] assms Cons
    have c: "c = b" and r': "replace cs [b, b, b] [] = b # rest"
      by simp_all
    from replace3_head [OF r'] obtain cs' where "cs = b # cs'" by auto
    with c Cons show ?thesis by simp
  qed
qed

text \<open>
  One pass removes every run of three: a run of \<open>n\<close> equal characters keeps \<open>n mod 3\<close> of
  them, and the characters around a run are kept, so no new run of three can form.
\<close>

lemma replace3_no_fence: "\<not> sublist [b, b, b] (replace s [b, b, b] [])"
proof (induction "length s" arbitrary: s rule: less_induct)
  case less
  show ?case
  proof (cases s)
    case Nil
    then show ?thesis by simp
  next
    case (Cons c cs)
    show ?thesis
    proof (cases "\<exists>t. c # cs = b # b # b # t")
      case True
      then obtain t where t: "c # cs = b # b # b # t" by auto
      with Cons have "length t < length s" by simp
      from less [OF this] show ?thesis
        unfolding Cons t replace3_match .
    next
      case False
      note rec = replace3_skip [OF False]
      have ih: "\<not> sublist [b, b, b] (replace cs [b, b, b] [])"
        using less [of cs] Cons by simp
      have "\<not> prefix [b, b, b] (c # replace cs [b, b, b] [])"
      proof
        assume p: "prefix [b, b, b] (c # replace cs [b, b, b] [])"
        then obtain rest where c: "c = b" and r: "replace cs [b, b, b] [] = b # b # rest"
          by (auto simp: prefix_def)
        from replace3_head2 [OF r] obtain cs' where "cs = b # b # cs'" by auto
        with c False show False by simp
      qed
      with ih show ?thesis
        unfolding Cons rec by (simp only: sublist_Cons_right simp_thms)
    qed
  qed
qed

lemma replace3_append_fence:
  "\<not> sublist [b, b, b] s \<Longrightarrow> replace (s @ [b, b, b]) [b, b, b] [] = s"
proof (induction s)
  case Nil
  show ?case by simp
next
  case (Cons c cs)
  from Cons.prems have np: "\<not> prefix [b, b, b] (c # cs)" and ns: "\<not> sublist [b, b, b] cs"
    by (simp_all add: sublist_Cons_right)
  show ?case
  proof (cases "\<exists>t. c # (cs @ [b, b, b]) = b # b # b # t")
    case True
    then obtain t where t: "c # (cs @ [b, b, b]) = b # b # b # t" by auto
    then have c: "c = b" and cs: "cs @ [b, b, b] = b # b # t" by simp_all
    show ?thesis
    proof (cases cs)
      case Nil
      with c show ?thesis by simp
    next
      case (Cons x xs)
      note outer = Cons
      show ?thesis
      proof (cases xs)
        case Nil
        with cs outer have "x = b" by simp
        with c outer Nil show ?thesis by simp
      next
        case (Cons y ys)
        with cs c outer np show ?thesis by simp
      qed
    qed
  next
    case False
    have "replace ((c # cs) @ [b, b, b]) [b, b, b] [] = c # replace (cs @ [b, b, b]) [b, b, b] []"
      using replace3_skip [OF False] by simp
    with Cons.IH [OF ns] show ?thesis by simp
  qed
qed

lemma fence_in_fence_json: "sublist fence fence_json"
  by (simp add: fence_def fence_json_def sublist_def) (metis append_Nil)

lemma no_fence_no_fence_json: "\<not> sublist fence s \<Longrightarrow> \<not> sublist fence_json s"
  using fence_in_fence_json sublist_order.order_trans by blast

lemma strip_fences_no_fence: "\<not> sublist fence (strip_fences s)"
  unfolding strip_fences_def fence_def by (rule replace3_no_fence)

lemma strip_fences_id: "\<not> sublist fence s \<Longrightarrow> strip_fences s = s"
proof -
  assume n: "\<not> sublist fence s"
  have j: "fence_json \<noteq> []" by (simp add: fence_json_def)
  have f: "fence \<noteq> []" by (simp add: fence_def)
  from n have "replace s fence_json [] = s"
    by (intro replace_no_match j no_fence_no_fence_json)
  with n f show ?thesis by (simp add: strip_fences_def replace_no_match)
qed

text \<open>A marker with \<open>json\<close> cannot end inside a closing marker that follows the text.\<close>

lemma fence_json_not_across:
  assumes "sublist fence_json (s @ fence)"
  shows "sublist fence s"
proof -
  from assms obtain ps ss where eq: "s @ fence = ps @ fence_json @ ss"
    by (auto simp: sublist_def)
  have fj: "fence_json = fence @ str_lit ''json''"
    by (simp add: fence_json_def fence_def)
  from eq have "s @ fence = (ps @ fence) @ (str_lit ''json'' @ ss)"
    by (simp add: fj)
  from iffD1 [OF append_eq_append_conv2 this] obtain us where
    "(s = (ps @ fence) @ us \<and> us @ fence = str_lit ''json'' @ ss) \<or>
     (s @ us = ps @ fence \<and> fence = us @ str_lit ''json'' @ ss)"
    by blast
  then show ?thesis
  proof
    assume "s = (ps @ fence) @ us \<and> us @ fence = str_lit ''json'' @ ss"
    then show ?thesis by (auto simp: sublist_def)
  next
    assume "s @ us = ps @ fence \<and> fence = us @ str_lit ''json'' @ ss"
    then have "length fence = length (us @ str_lit ''json'' @ ss)" by simp
    then show ?thesis by (simp add: fence_def str_lit_def)
  qed
qed

lemma strip_fences_fenced:
  assumes "\<not> sublist fence s"
  shows "strip_fences (fence_json @ s @ fence) = s"
proof -
  have j: "fence_json \<noteq> []" by (simp add: fence_json_def)
  have "replace (fence_json @ s @ fence) fence_json [] = replace (s @ fence) fence_json []"
    by (simp add: fence_json_def str_lit_def)
  also have "\<dots> = s @ fence"
    using assms fence_json_not_across by (intro replace_no_match j) blast
  finally show ?thesis
    using assms by (simp add: strip_fences_def fence_def replace3_append_fence)
qed

text \<open>
  C4: fence stripping is total (\<open>replace\<close> is a terminating function, defined on every
  string) and idempotent; its result holds neither marker; a string that holds neither
  marker is left as it is, and is also what stripping gives for that string wrapped in an
  opening \<open>```json\<close> and a closing \<open>```\<close>, so \<open>json.loads\<close> gets the same text and
  gives the same result for both.
\<close>

theorem strip_fences_idempotent_total:
  "strip_fences (strip_fences s) = strip_fences s
   \<and> \<not> sublist fence_json (strip_fences s)
   \<and> \<not> sublist fence (strip_fences s)
   \<and> (\<not> sublist fence_json s \<and> \<not> sublist fence s \<longrightarrow>
        strip_fences s = s
        \<and> strip_fences (fence_json @ s @ fence) = s
        \<and> json_loads env (strip_fences (fence_json @ s @ fence)) = json_loads env (strip_fences s))"
proof -
  have a: "\<not> sublist fence (strip_fences s)" by (rule strip_fences_no_fence)
  then have b: "\<not> sublist fence_json (strip_fences s)" by (rule no_fence_no_fence_json)
  from a have c: "strip_fences (strip_fences s) = strip_fences s" by (rule strip_fences_id)
  from a b c show ?thesis
    by (simp add: strip_fences_id strip_fences_fenced)
qed

theorem strip_fences_idempotent_total_witness:
  "\<not> sublist fence_json address_doc \<and> \<not> sublist fence address_doc
   \<and> strip_fences address_doc = address_doc
   \<and> strip_fences fenced_reply = [10] @ address_doc @ [10]
   \<and> strip_fences (fence_json @ address_doc @ fence) = address_doc"
proof -
  have h1: "\<not> sublist fence address_doc"
    by (simp add: fence_def address_doc_def str_lit_def sublist_code)
  then have h2: "\<not> sublist fence_json address_doc" by (rule no_fence_no_fence_json)
  have h3: "\<not> sublist fence ([10] @ address_doc @ [10])"
    by (simp add: fence_def address_doc_def str_lit_def sublist_code)
  then have h4: "\<not> sublist fence_json ([10] @ address_doc @ [10])"
    by (rule no_fence_no_fence_json)
  note t1 = strip_fences_idempotent_total [of address_doc, THEN conjunct2, THEN conjunct2,
      THEN conjunct2, THEN mp, OF conjI [OF h2 h1]]
  note t2 = strip_fences_idempotent_total [of "[10] @ address_doc @ [10]", THEN conjunct2,
      THEN conjunct2, THEN conjunct2, THEN mp, OF conjI [OF h4 h3]]
  have r: "fenced_reply = fence_json @ ([10] @ address_doc @ [10]) @ fence"
    by (simp add: fenced_reply_def)
  from h1 h2 t1 [THEN conjunct1] t1 [THEN conjunct2, THEN conjunct1]
    t2 [THEN conjunct2, THEN conjunct1, folded r]
  show ?thesis by blast
qed

section \<open>Helper facts about the handler\<close>

lemma decimal_400: "decimal 400 = str_lit ''400''"
  by (simp add: decimal.simps str_lit_def)


lemma extract_pages_concat:
  "map ext pages = map Inr ts \<Longrightarrow>
   extract_pages ext acc pages = Inr (acc @ concat (map or_empty ts))"
proof (induction pages arbitrary: acc ts)
  case Nil
  then show ?case by simp
next
  case (Cons p ps)
  then obtain u us where ts: "ts = u # us" and p: "ext p = Inr u" and ps: "map ext ps = map Inr us"
    by (cases ts) auto
  from Cons.IH [OF ps] p ts show ?case by simp
qed

lemma or_empty_case: "or_empty = (\<lambda>t. case t of None \<Rightarrow> [] | Some s \<Rightarrow> s)"
  by (auto simp: or_empty_def fun_eq_iff split: option.splits)

lemma try_body_with_text:
  assumes "read env pdf_file = Inr b" and "extract_text_from_pdf env b = Inr t" and "t \<noteq> []"
  shows "try_body env pdf_file =
     (case generate_content env (full_prompt t) of
        Inl e \<Rightarrow> (Inl e, [full_prompt t])
      | Inr response \<Rightarrow>
          (case parse_response env response of
             Inl e \<Rightarrow> (Inl e, [full_prompt t])
           | Inr extracted_data \<Rightarrow>
               (case download_response env extracted_data of
                  Inl e \<Rightarrow> (Inl e, [full_prompt t])
                | Inr response \<Rightarrow> (Inr response, [full_prompt t]))))"
  using assms by (simp add: try_body_def)



lemma on_decode_error_other: "\<forall>m. e \<noteq> JSONDecodeError m \<Longrightarrow> on_decode_error e = e"
  by (cases e) auto

lemma rendered_response_content:
  "rendered_response v rendered = rendered_response w rendered' \<Longrightarrow> v = w"
  by (simp add: rendered_response_def)

section \<open>The scripted environment, evaluated\<close>

lemma scripted_read: "read (scripted_services pages reply table) f = Inr f"
  by (simp add: scripted_services_def)

lemma scripted_reader_empty:
  "PdfReader (scripted_services pages reply table) [] =
     Inl (OtherException (str_lit ''Cannot read an empty file''))"
  by (simp add: scripted_services_def)

lemma scripted_reader: "f \<noteq> [] \<Longrightarrow> PdfReader (scripted_services pages reply table) f = Inr pages"
  by (simp add: scripted_services_def)

lemma scripted_pages:
  "map (page_extract_text (scripted_services pages reply table)) ps = map Inr ps"
  by (simp add: scripted_services_def)

lemma scripted_extract:
  "f \<noteq> [] \<Longrightarrow>
   extract_text_from_pdf (scripted_services pages reply table) f = Inr (concat (map or_empty pages))"
  using extract_pages_concat [OF scripted_pages, of pages reply table "[]" pages]
  by (simp add: extract_text_from_pdf_def scripted_reader)

lemma scripted_generate: "generate_content (scripted_services pages reply table) payload = reply"
  by (simp add: scripted_services_def)

lemma scripted_text: "response_text (scripted_services pages reply table) r = Inr r"
  by (simp add: scripted_services_def)

lemma scripted_loads: "json_loads (scripted_services pages reply table) s = table_loads table s"
  by (simp add: scripted_services_def)

lemma scripted_render: "render (scripted_services pages reply table) v = table_render render_table v"
  by (simp add: scripted_services_def)

lemma sample_pdf_nonempty: "sample_pdf \<noteq> []"
  by (simp add: sample_pdf_def)

lemma sample_text_nonempty: "sample_text \<noteq> []"
  by (simp add: sample_text_def str_lit_def)

lemma sample_extract:
  "extract_text_from_pdf (scripted_services [Some sample_text] reply table) sample_pdf =
     Inr sample_text"
  by (simp add: scripted_extract sample_pdf_nonempty or_empty_def)

lemma strip_padded_reply: "strip ([32] @ fenced_reply @ [10]) = fenced_reply"
  by (simp add: strip_def isspace_def fenced_reply_def fence_json_def fence_def address_doc_def
      str_lit_def)

lemma address_doc_no_fence: "\<not> sublist fence ([10] @ address_doc @ [10])"
  by (simp add: fence_def address_doc_def str_lit_def sublist_code)

lemma fenced_reply_stripped: "strip_fences fenced_reply = [10] @ address_doc @ [10]"
  using strip_fences_fenced [OF address_doc_no_fence] by (simp add: fenced_reply_def)

lemma loads_address: "table_loads json_table ([10] @ address_doc @ [10]) = Inr address_value"
  by (simp add: table_loads_def json_table_def)




lemma strip_note_doc: "strip note_doc = note_doc"
  by (simp add: strip_def isspace_def note_doc_def fence_def str_lit_def)

lemma strip_fences_note_doc: "strip_fences note_doc = emptied_note_doc"
  by (simp add: strip_fences_def note_doc_def emptied_note_doc_def fence_json_def fence_def
      str_lit_def)

lemma note_doc_has_fence: "sublist fence note_doc"
  by (simp add: note_doc_def fence_def str_lit_def sublist_code)

lemma loads_note: "table_loads json_table note_doc = Inr note_value"
  by (simp add: table_loads_def json_table_def note_doc_def address_doc_def str_lit_def)

lemma loads_emptied_note: "table_loads json_table emptied_note_doc = Inr emptied_note_value"
  by (simp add: table_loads_def json_table_def note_doc_def emptied_note_doc_def address_doc_def
      fence_def str_lit_def)

lemma strip_surrogate_doc: "strip surrogate_doc = surrogate_doc"
  by (simp add: strip_def isspace_def surrogate_doc_def str_lit_def)

lemma surrogate_doc_no_fence: "\<not> sublist fence surrogate_doc"
  by (simp add: fence_def surrogate_doc_def str_lit_def sublist_code)

lemma loads_surrogate: "table_loads json_table surrogate_doc = Inr surrogate_value"
  by (simp add: table_loads_def json_table_def note_doc_def emptied_note_doc_def address_doc_def
      surrogate_doc_def fence_def str_lit_def)

lemma surrogate_doc_cleaned: "strip_fences (strip surrogate_doc) = surrogate_doc"
  by (simp only: strip_surrogate_doc strip_fences_id [OF surrogate_doc_no_fence])

lemma render_address: "table_render render_table address_value = Inr address_body"
  by (simp add: table_render_def render_table_def)

lemma render_emptied_note:
  "table_render render_table emptied_note_value = Inr emptied_note_body"
  by (simp add: table_render_def render_table_def address_value_def note_value_def
      emptied_note_value_def fence_def str_lit_def)

lemma render_surrogate:
  "table_render render_table surrogate_value = Inl (OtherException surrogate_error)"
  by (simp add: table_render_def render_table_def address_value_def note_value_def
      emptied_note_value_def surrogate_value_def fence_def str_lit_def)

lemma note_values_differ: "emptied_note_value \<noteq> note_value"
  by (simp add: emptied_note_value_def note_value_def fence_def)

section \<open>The extractor, the start of the process and the handler\<close>

text \<open>
  C5: for a well-formed PDF (the reader opens it and every page's extraction returns) the
  extractor returns the page texts joined in page order, with the empty string for a page
  that gives none; when some page has a non-empty text the result is not empty.
\<close>

theorem extract_text_is_ordered_concatenation:
  assumes "PdfReader env file_stream = Inr pages"
    and "map (page_extract_text env) pages = map Inr texts"
  shows "extract_text_from_pdf env file_stream =
           Inr (concat (map (\<lambda>t. case t of None \<Rightarrow> [] | Some s \<Rightarrow> s) texts))
         \<and> ((\<exists>s. Some s \<in> set texts \<and> s \<noteq> []) \<longrightarrow>
              concat (map (\<lambda>t. case t of None \<Rightarrow> [] | Some s \<Rightarrow> s) texts) \<noteq> [])"
proof -
  have "extract_text_from_pdf env file_stream = Inr ([] @ concat (map or_empty texts))"
    using assms by (simp add: extract_text_from_pdf_def extract_pages_concat)
  then have a: "extract_text_from_pdf env file_stream =
      Inr (concat (map (\<lambda>t. case t of None \<Rightarrow> [] | Some s \<Rightarrow> s) texts))"
    by (simp add: or_empty_case)
  have b: "(\<exists>s. Some s \<in> set texts \<and> s \<noteq> []) \<longrightarrow>
      concat (map (\<lambda>t. case t of None \<Rightarrow> [] | Some s \<Rightarrow> s) texts) \<noteq> []"
    by force
  from a b show ?thesis by blast
qed

theorem extract_text_is_ordered_concatenation_witness:
  "extract_text_from_pdf
     (scripted_services [Some sample_text, None, Some (str_lit ''Tokyo'')] (Inr fenced_reply) json_table)
     sample_pdf = Inr (sample_text @ str_lit ''Tokyo'')
   \<and> sample_text @ str_lit ''Tokyo'' \<noteq> []"
proof -
  have h1: "PdfReader
      (scripted_services [Some sample_text, None, Some (str_lit ''Tokyo'')] (Inr fenced_reply) json_table)
      sample_pdf = Inr [Some sample_text, None, Some (str_lit ''Tokyo'')]"
    by (rule scripted_reader [OF sample_pdf_nonempty])
  have h3: "\<exists>s. Some s \<in> set [Some sample_text, None, Some (str_lit ''Tokyo'')] \<and> s \<noteq> []"
    using sample_text_nonempty by auto
  note t = extract_text_is_ordered_concatenation [OF h1 scripted_pages]
  from t [THEN conjunct1] mp [OF t [THEN conjunct2] h3] show ?thesis by simp
qed

text \<open>
  C8: when the environment holds no \<open>GEMINI_API_KEY\<close>, initialisation of the module
  raises the \<open>ValueError\<close> and stops before the client is configured, the application
  is created or any route is registered.
\<close>

theorem missing_key_stops_initialisation:
  assumes "getenv (str_lit ''GEMINI_API_KEY'') = None"
  shows "module_init getenv =
           (Some (ValueError (str_lit ''GEMINI_API_KEY not found in .env file.'')), not_started)
         \<and> routes (snd (module_init getenv)) = []
         \<and> \<not> app_created (snd (module_init getenv))"
  using assms by (simp add: module_init_def not_started_def)

theorem missing_key_stops_initialisation_witness:
  "module_init (\<lambda>name. None) =
     (Some (ValueError (str_lit ''GEMINI_API_KEY not found in .env file.'')), not_started)
   \<and> routes (snd (module_init (\<lambda>name. None))) = []
   \<and> \<not> app_created (snd (module_init (\<lambda>name. None)))"
  by (rule missing_key_stops_initialisation [of "\<lambda>name. None", OF refl])

text \<open>
  C1: what the handler answers when extraction succeeds with the empty string. The body
  raises \<open>HTTPException(400)\<close>, the enclosing \<open>except Exception\<close> catches it and
  raises \<open>HTTPException(500)\<close> with the text of the first: the answer has status 500,
  not 400, and no request is sent to the model.
\<close>

theorem empty_text_answer:
  assumes "read env pdf_file = Inr b" and "extract_text_from_pdf env b = Inr []"
  shows "extract_data_from_pdf env pdf_file =
           (Inl (HTTPException 500 (str_lit ''400: '' @ no_text_detail)), [])"
  using assms
  by (simp add: extract_data_from_pdf_def try_body_def decimal_400 str_lit_def)

theorem empty_text_answer_witness:
  "extract_data_from_pdf (scripted_services [None, Some []] (Inr fenced_reply) json_table) sample_pdf =
     (Inl (HTTPException 500 (str_lit ''400: Could not extract text from the PDF file.'')), [])"
proof -
  have h1: "read (scripted_services [None, Some []] (Inr fenced_reply) json_table) sample_pdf =
      Inr sample_pdf"
    by (rule scripted_read)
  have h2: "extract_text_from_pdf (scripted_services [None, Some []] (Inr fenced_reply) json_table)
      sample_pdf = Inr []"
    by (simp add: scripted_extract sample_pdf_nonempty or_empty_def)
  from empty_text_answer [OF h1 h2] show ?thesis
    by (simp add: no_text_detail_def str_lit_def)
qed

text \<open>
  C2, as the code has it: when the model's text, trimmed and with the fences removed, is
  accepted by \<open>json.loads\<close> and the response can render the parsed value, the handler
  returns a response with status 200 whose content is the value \<open>json.loads\<close> gave,
  whatever it is, whose body is its rendering and whose \<open>Content-Disposition\<close> header
  is \<open>attachment; filename=extracted_data.json\<close>.
\<close>

theorem parsed_value_returned:
  assumes "read env pdf_file = Inr b" and "extract_text_from_pdf env b = Inr t" and "t \<noteq> []"
    and "generate_content env (full_prompt t) = Inr r"
    and "response_text env r = Inr raw"
    and "json_loads env (strip_fences (strip raw)) = Inr v"
    and "render env v = Inr rendered"
  shows "fst (extract_data_from_pdf env pdf_file) =
           Inr \<lparr>content = v, status_code = 200, media_type = str_lit ''application/json'',
                headers = [(str_lit ''Content-Disposition'',
                            str_lit ''attachment; filename=extracted_data.json'')],
                body = rendered\<rparr>"
  using assms(4-7)
  by (simp add: extract_data_from_pdf_def try_body_with_text [OF assms(1-3)] parse_response_def
      download_response_def rendered_response_def)

theorem parsed_value_returned_witness:
  "fst (extract_data_from_pdf
      (scripted_services [Some sample_text] (Inr ([32] @ fenced_reply @ [10])) json_table) sample_pdf) =
     Inr \<lparr>content = address_value, status_code = 200,
          media_type = str_lit ''application/json'',
          headers = [(str_lit ''Content-Disposition'',
                      str_lit ''attachment; filename=extracted_data.json'')],
          body = address_body\<rparr>"
proof -
  have h6: "json_loads
      (scripted_services [Some sample_text] (Inr ([32] @ fenced_reply @ [10])) json_table)
      (strip_fences (strip ([32] @ fenced_reply @ [10]))) = Inr address_value"
    by (simp only: scripted_loads strip_padded_reply fenced_reply_stripped loads_address)
  have h7: "render
      (scripted_services [Some sample_text] (Inr ([32] @ fenced_reply @ [10])) json_table)
      address_value = Inr address_body"
    by (simp only: scripted_render render_address)
  show ?thesis
    by (rule parsed_value_returned [OF scripted_read sample_extract sample_text_nonempty
          scripted_generate scripted_text h6 h7])
qed

text \<open>
  The claim without the condition on rendering fails: the model's reply is the document
  with the surrogate escape, \<open>json.loads\<close> accepts it, the constructor of the response
  raises while encoding the body, and the answer has status 500.
\<close>

theorem parsed_value_returned_counterexample:
  "json_loads (scripted_services [Some sample_text] (Inr surrogate_doc) json_table)
     (strip_fences (strip surrogate_doc)) = Inr surrogate_value
   \<and> fst (extract_data_from_pdf
       (scripted_services [Some sample_text] (Inr surrogate_doc) json_table) sample_pdf) =
     Inl (HTTPException 500 surrogate_error)"
proof -
  have l: "json_loads (scripted_services [Some sample_text] (Inr surrogate_doc) json_table)
      (strip_fences (strip surrogate_doc)) = Inr surrogate_value"
    by (simp only: surrogate_doc_cleaned scripted_loads loads_surrogate)
  have p: "parse_response (scripted_services [Some sample_text] (Inr surrogate_doc) json_table)
      surrogate_doc = Inr surrogate_value"
    by (simp add: parse_response_def scripted_text l)
  have d: "download_response (scripted_services [Some sample_text] (Inr surrogate_doc) json_table)
      surrogate_value = Inl (OtherException surrogate_error)"
    by (simp add: download_response_def scripted_render render_surrogate)
  have "fst (extract_data_from_pdf
       (scripted_services [Some sample_text] (Inr surrogate_doc) json_table) sample_pdf) =
     Inl (HTTPException 500 surrogate_error)"
    by (simp add: extract_data_from_pdf_def
        try_body_with_text [OF scripted_read sample_extract sample_text_nonempty]
        scripted_generate p d)
  with l show ?thesis by (intro conjI)
qed



text \<open>
  C6: a failure of the upload's read, of the PDF reader or of a page's extraction, of the
  call to the model, an error other than \<open>JSONDecodeError\<close> from \<open>response.text\<close> or
  \<open>json.loads\<close>, or a failure to render the response, is answered with status 500 and
  \<open>str(e)\<close> of that error as detail.
\<close>

theorem other_failure_answer:
  assumes "read env pdf_file = Inl e
     \<or> (read env pdf_file = Inr b
        \<and> (extract_text_from_pdf env b = Inl e
          \<or> (extract_text_from_pdf env b = Inr t \<and> t \<noteq> []
            \<and> (generate_content env (full_prompt t) = Inl e
              \<or> (generate_content env (full_prompt t) = Inr r
                \<and> (((\<forall>m. e \<noteq> JSONDecodeError m)
                    \<and> (response_text env r = Inl e
                      \<or> (response_text env r = Inr raw
                        \<and> json_loads env (strip_fences (strip raw)) = Inl e)))
                  \<or> (response_text env r = Inr raw
                    \<and> json_loads env (strip_fences (strip raw)) = Inr v
                    \<and> render env v = Inl e)))))))"
  shows "fst (extract_data_from_pdf env pdf_file) = Inl (HTTPException 500 (exn_str e))"
  using assms
  by (auto simp: extract_data_from_pdf_def try_body_def parse_response_def on_decode_error_other
      download_response_def)

theorem other_failure_answer_witness:
  "fst (extract_data_from_pdf (scripted_services [Some sample_text] (Inr fenced_reply) json_table) []) =
     Inl (HTTPException 500 (str_lit ''Cannot read an empty file''))
   \<and> fst (extract_data_from_pdf
       (scripted_services [Some sample_text]
          (Inl (OtherException (str_lit ''503 Service Unavailable''))) json_table) sample_pdf) =
     Inl (HTTPException 500 (str_lit ''503 Service Unavailable''))
   \<and> fst (extract_data_from_pdf
       (scripted_services [Some sample_text] (Inr surrogate_doc) json_table) sample_pdf) =
     Inl (HTTPException 500 surrogate_error)"
proof -
  have p1: "extract_text_from_pdf (scripted_services [Some sample_text] (Inr fenced_reply) json_table) [] =
      Inl (OtherException (str_lit ''Cannot read an empty file''))"
    by (simp add: extract_text_from_pdf_def scripted_reader_empty)
  have a: "fst (extract_data_from_pdf (scripted_services [Some sample_text] (Inr fenced_reply) json_table) []) =
      Inl (HTTPException 500 (exn_str (OtherException (str_lit ''Cannot read an empty file''))))"
    by (rule other_failure_answer [where b = "[]", OF disjI2, OF conjI, OF scripted_read disjI1,
          OF p1])
  have b: "fst (extract_data_from_pdf
       (scripted_services [Some sample_text]
          (Inl (OtherException (str_lit ''503 Service Unavailable''))) json_table) sample_pdf) =
      Inl (HTTPException 500 (exn_str (OtherException (str_lit ''503 Service Unavailable''))))"
    by (rule other_failure_answer [where b = sample_pdf and t = sample_text, OF disjI2,
          OF conjI, OF scripted_read disjI2, OF conjI, OF sample_extract conjI,
          OF sample_text_nonempty disjI1, OF scripted_generate])
  have p3: "read (scripted_services [Some sample_text] (Inr surrogate_doc) json_table) sample_pdf =
        Inr sample_pdf
      \<and> extract_text_from_pdf (scripted_services [Some sample_text] (Inr surrogate_doc) json_table)
          sample_pdf = Inr sample_text
      \<and> sample_text \<noteq> []
      \<and> generate_content (scripted_services [Some sample_text] (Inr surrogate_doc) json_table)
          (full_prompt sample_text) = Inr surrogate_doc
      \<and> response_text (scripted_services [Some sample_text] (Inr surrogate_doc) json_table)
          surrogate_doc = Inr surrogate_doc
      \<and> json_loads (scripted_services [Some sample_text] (Inr surrogate_doc) json_table)
          (strip_fences (strip surrogate_doc)) = Inr surrogate_value
      \<and> render (scripted_services [Some sample_text] (Inr surrogate_doc) json_table)
          surrogate_value = Inl (OtherException surrogate_error)"
    by (simp only: scripted_read sample_extract sample_text_nonempty scripted_generate
        scripted_text surrogate_doc_cleaned scripted_loads loads_surrogate scripted_render
        render_surrogate simp_thms)
  have c: "fst (extract_data_from_pdf
       (scripted_services [Some sample_text] (Inr surrogate_doc) json_table) sample_pdf) =
      Inl (HTTPException 500 (exn_str (OtherException surrogate_error)))"
    by (rule other_failure_answer [where b = sample_pdf and t = sample_text
          and r = surrogate_doc and raw = surrogate_doc and v = surrogate_value])
      (use p3 in blast)
  from a b c show ?thesis by simp
qed





text \<open>
  C9: the response \<open>{"Note": "```"}\<close> holds the fence inside a field value. Cleaning
  turns it into \<open>{"Note": ""}\<close>, so whenever \<open>json.loads\<close> reads the two documents as
  different values, the handler builds its response from the value of the second: it
  returns that value (or the error of rendering it), and never a response whose content is
  the value the raw response denotes.
\<close>

theorem fence_in_field_value_is_lost:
  assumes "read env pdf_file = Inr b" and "extract_text_from_pdf env b = Inr t" and "t \<noteq> []"
    and "generate_content env (full_prompt t) = Inr r"
    and "response_text env r = Inr note_doc"
    and "json_loads env note_doc = Inr v"
    and "json_loads env emptied_note_doc = Inr v'"
    and "v' \<noteq> v"
  shows "sublist fence note_doc
         \<and> strip_fences (strip note_doc) \<noteq> note_doc
         \<and> fst (extract_data_from_pdf env pdf_file) =
             (case render env v' of
                Inl e \<Rightarrow> Inl (HTTPException 500 (exn_str e))
              | Inr rendered \<Rightarrow> Inr (rendered_response v' rendered))
         \<and> (\<forall>rendered.
               fst (extract_data_from_pdf env pdf_file) \<noteq> Inr (rendered_response v rendered))"
proof -
  have c: "strip_fences (strip note_doc) = emptied_note_doc"
    by (simp only: strip_note_doc strip_fences_note_doc)
  have d: "emptied_note_doc \<noteq> note_doc"
  proof
    assume "emptied_note_doc = note_doc"
    with assms(6,7) have "v' = v" by simp
    with assms(8) show False by simp
  qed
  have p: "parse_response env r = Inr v'"
    using assms(5,7) by (simp add: parse_response_def c)
  have e: "fst (extract_data_from_pdf env pdf_file) =
      (case render env v' of
         Inl e \<Rightarrow> Inl (HTTPException 500 (exn_str e))
       | Inr rendered \<Rightarrow> Inr (rendered_response v' rendered))"
    using assms(4) p
    by (simp add: extract_data_from_pdf_def try_body_with_text [OF assms(1-3)]
        download_response_def split: sum.splits)
  have g: "\<forall>rendered.
      fst (extract_data_from_pdf env pdf_file) \<noteq> Inr (rendered_response v rendered)"
  proof (intro allI notI)
    fix rendered
    assume a: "fst (extract_data_from_pdf env pdf_file) = Inr (rendered_response v rendered)"
    show False
    proof (cases "render env v'")
      case (Inl x)
      with e a show False by simp
    next
      case (Inr rendered')
      with e a have "rendered_response v' rendered' = rendered_response v rendered" by simp
      from rendered_response_content [OF this] assms(8) show False by simp
    qed
  qed
  have h: "strip_fences (strip note_doc) \<noteq> note_doc"
    unfolding c by (rule d)
  from note_doc_has_fence h e g show ?thesis by (intro conjI)
qed

theorem fence_in_field_value_is_lost_witness:
  "sublist fence note_doc
   \<and> strip_fences (strip note_doc) \<noteq> note_doc
   \<and> fst (extract_data_from_pdf
       (scripted_services [Some sample_text] (Inr note_doc) json_table) sample_pdf) =
     Inr (rendered_response emptied_note_value emptied_note_body)
   \<and> fst (extract_data_from_pdf
       (scripted_services [Some sample_text] (Inr note_doc) json_table) sample_pdf) \<noteq>
     Inr (rendered_response note_value note_body)"
proof -
  have l1: "json_loads (scripted_services [Some sample_text] (Inr note_doc) json_table) note_doc =
      Inr note_value"
    by (simp only: scripted_loads loads_note)
  have l2: "json_loads (scripted_services [Some sample_text] (Inr note_doc) json_table)
      emptied_note_doc = Inr emptied_note_value"
    by (simp only: scripted_loads loads_emptied_note)
  have l3: "render (scripted_services [Some sample_text] (Inr note_doc) json_table)
      emptied_note_value = Inr emptied_note_body"
    by (simp only: scripted_render render_emptied_note)
  note t = fence_in_field_value_is_lost [OF scripted_read sample_extract sample_text_nonempty
      scripted_generate scripted_text l1 l2 note_values_differ]
  have a: "fst (extract_data_from_pdf
       (scripted_services [Some sample_text] (Inr note_doc) json_table) sample_pdf) =
     Inr (rendered_response emptied_note_value emptied_note_body)"
    using t [THEN conjunct2, THEN conjunct2, THEN conjunct1] by (simp add: l3)
  note b = t [THEN conjunct2, THEN conjunct2, THEN conjunct2, THEN spec, of note_body]
  from t [THEN conjunct1] t [THEN conjunct2, THEN conjunct1] a b show ?thesis by (intro conjI)
qed

end
